theory Spec2Isabelle
  imports Main "HOL-Library.Sublist"
begin

section \<open>The web terminal session of soshell: data model\<close>

text \<open>
  The server talks to one browser over one websocket. Outbound traffic is a sequence of
  directive packets (cmd.go); inbound traffic is a sequence of text frames, which are
  either decoded as command packets by the read loop (main.go, \<^verbatim>\<open>listener\<close>) or taken
  raw as the answer to a query by a handler that is running (cmd.go, \<^verbatim>\<open>recieve\<close>).
  Everything runs on the one goroutine of the connection, so the model is sequential
  state passing over the record \<open>client\<close>.
\<close>

text \<open>A Go \<^verbatim>\<open>error\<close> value, identified by the text its \<^verbatim>\<open>Error()\<close> method returns;
  \<open>None\<close> of type \<open>error option\<close> is \<^verbatim>\<open>nil\<close>.\<close>

datatype error = ErrorString string

fun Error :: "error \<Rightarrow> string" where
  "Error (ErrorString s) = s"

text \<open>cmd.go, \<^verbatim>\<open>type packet struct { Type string; Data map[string]string }\<close>: the
  directive packet written to the client.\<close>

record packet =
  Type :: string
  Data :: "string \<rightharpoonup> string"

text \<open>main.go, \<^verbatim>\<open>type packet struct { Type string; Args []string; Map map[string]string }\<close>:
  the packet the read loop decodes an inbound frame into. Both files declare a type
  named \<^verbatim>\<open>packet\<close>; this one carries the suffix of its file here.\<close>

record packet_main =
  Type_main :: string
  Args :: "string list"
  Map_main :: "string \<rightharpoonup> string"

text \<open>The value of \<^verbatim>\<open>c.user\<close>. Its type is declared outside the two source files; the
  handlers use the fields \<^verbatim>\<open>Name\<close> and \<^verbatim>\<open>Email\<close>.\<close>

record userinfo =
  Name :: string
  Email :: string

text \<open>
  main.go, \<^verbatim>\<open>type client struct { ws *websocket.Conn; user, address string }\<close>.
  The connection \<^verbatim>\<open>ws\<close> is three fields here:
  \<^item> \<open>inbox\<close>: the text frames the peer sends before it closes, oldest first;
  \<^item> \<open>wlog\<close>: every packet handed to \<^verbatim>\<open>c.ws.WriteJSON\<close> so far, oldest first;
  \<^item> \<open>wres\<close>: the outcome of the \<open>n\<close>-th write on the connection (\<open>None\<close>: written).
  \<open>db\<close> is the state of the user store the handlers consult, of an abstract type.
\<close>

record 'db client =
  inbox :: "string list"
  wlog :: "packet list"
  wres :: "nat \<Rightarrow> error option"
  user :: userinfo
  address :: string
  db :: 'db

text \<open>
  What the two files use and do not define, taken as parameters:
  \<^item> \<open>decode\<close>: the JSON decoding of one frame by \<^verbatim>\<open>websocket.JSON.Receive\<close>
    (\<open>None\<close>: the frame is not a packet);
  \<^item> \<open>isName\<close>, \<open>isEmail\<close>: the validity checks;
  \<^item> \<open>users\<close>, \<open>SEP\<close>, \<open>indexPath\<close>, \<open>pathExists\<close>: the flag \<^verbatim>\<open>*users\<close>, the path
    separator, the index of a name and the test whether a path exists in the store;
  \<^item> \<open>load\<close>, \<open>save\<close>: the methods \<^verbatim>\<open>c.user.load(name, pass)\<close> and
    \<^verbatim>\<open>c.user.save(name, pass)\<close>. Modelled from the spec: the user store's interface is
    \<^verbatim>\<open>load(name, password) \<rightarrow> (identity, error)\<close> and
    \<^verbatim>\<open>save(identity, password) \<rightarrow> error\<close>, so \<open>load\<close> yields an error or the identity that
    becomes \<^verbatim>\<open>c.user\<close>, and \<open>save\<close> yields an error or nothing, and the new store;
  \<^item> \<open>rangeKeys\<close>: the order in which \<^verbatim>\<open>range cmdMap\<close> yields the command names.
\<close>

record 'db env =
  decode :: "string \<Rightarrow> packet_main option"
  isName :: "string \<Rightarrow> bool"
  isEmail :: "string \<Rightarrow> bool"
  users :: string
  SEP :: string
  indexPath :: "string \<Rightarrow> string"
  pathExists :: "'db \<Rightarrow> string \<Rightarrow> bool"
  load :: "'db \<Rightarrow> string \<Rightarrow> string \<Rightarrow> error + userinfo"
  save :: "'db \<Rightarrow> userinfo \<Rightarrow> string \<Rightarrow> string \<Rightarrow> error option \<times> 'db"
  rangeKeys :: "string list"

section \<open>The transport\<close>

text \<open>\<^verbatim>\<open>c.ws.WriteJSON(p)\<close>: one write on the connection. The packet is logged whether
  or not the write succeeds; the outcome is the one \<open>wres\<close> has for this write.\<close>

definition WriteJSON :: "'db client \<Rightarrow> packet \<Rightarrow> error option \<times> 'db client" where
  "WriteJSON c p = (wres c (length (wlog c)), c\<lparr>wlog := wlog c @ [p]\<rparr>)"

text \<open>Modelled from the spec: \<^verbatim>\<open>c.recieve()\<close> is called by cmd.go and defined in neither
  file. By the spec a query call returns the raw payload of the very next inbound
  message, and a caller waiting on a closed transport is unblocked with an error.\<close>

definition recieve :: "'db client \<Rightarrow> (string \<times> error option) \<times> 'db client" where
  "recieve c =
     (case inbox c of
        [] \<Rightarrow> (('''', Some (ErrorString ''EOF'')), c)
      | m # ms \<Rightarrow> ((m, None), c\<lparr>inbox := ms\<rparr>))"

text \<open>main.go, \<^verbatim>\<open>readPacket\<close>: \<^verbatim>\<open>websocket.JSON.Receive(c.ws, &p)\<close> takes the next
  frame and decodes it. On an error the packet is the zero packet.\<close>

definition zeroPacket :: packet_main where
  "zeroPacket = \<lparr>Type_main = '''', Args = [], Map_main = Map.empty\<rparr>"

definition readPacket :: "'db env \<Rightarrow> 'db client \<Rightarrow> (packet_main \<times> error option) \<times> 'db client" where
  "readPacket env c =
     (case inbox c of
        [] \<Rightarrow> ((zeroPacket, Some (ErrorString ''EOF'')), c)
      | m # ms \<Rightarrow>
          (case decode env m of
             None \<Rightarrow> ((zeroPacket, Some (ErrorString ''invalid JSON'')), c\<lparr>inbox := ms\<rparr>)
           | Some p \<Rightarrow> ((p, None), c\<lparr>inbox := ms\<rparr>)))"

section \<open>The directives of cmd.go\<close>

definition newPacket :: "string \<Rightarrow> packet" where
  "newPacket t = \<lparr>Type = t, Data = Map.empty\<rparr>"

text \<open>The assignment \<^verbatim>\<open>p.Data[k] = v\<close>.\<close>

definition setData :: "packet \<Rightarrow> string \<Rightarrow> string \<Rightarrow> packet" where
  "setData p k v = p\<lparr>Data := (Data p)(k \<mapsto> v)\<rparr>"

definition appendMsg_packet :: "string \<Rightarrow> string \<Rightarrow> packet" where
  "appendMsg_packet selector text =
     setData (setData (setData (setData (setData (newPacket ''appendElement'')
       ''Element'' ''div'') ''Selector'' selector) ''Class'' ''msg'') ''Text'' text)
       ''Scroll'' ''true''"

definition appendMsg :: "'db client \<Rightarrow> string \<Rightarrow> string \<Rightarrow> error option \<times> 'db client" where
  "appendMsg c selector text = WriteJSON c (appendMsg_packet selector text)"

definition exists_packet :: "string \<Rightarrow> packet" where
  "exists_packet selector = setData (newPacket ''exists'') ''Selector'' selector"

text \<open>\<^verbatim>\<open>exists\<close>: the answer is read only when the write succeeded.\<close>

definition exists :: "'db client \<Rightarrow> string \<Rightarrow> bool \<times> 'db client" where
  "exists c selector =
     (let (e, c1) = WriteJSON c (exists_packet selector) in
      if e = None then
        (let ((b, e'), c2) = recieve c1 in
         if e' = None \<and> b = ''true'' then (True, c2) else (False, c2))
      else (False, c1))"

definition innerHTML_packet :: "string \<Rightarrow> string \<Rightarrow> packet" where
  "innerHTML_packet selector val =
     setData (setData (newPacket ''innerHTML'') ''Selector'' selector) ''Value'' val"

definition innerHTML :: "'db client \<Rightarrow> string \<Rightarrow> string \<Rightarrow> error option \<times> 'db client" where
  "innerHTML c selector val = WriteJSON c (innerHTML_packet selector val)"

definition getHTML_packet :: "string \<Rightarrow> packet" where
  "getHTML_packet selector = setData (newPacket ''getHTML'') ''Selector'' selector"

text \<open>\<^verbatim>\<open>getHTML\<close>. Inside \<^verbatim>\<open>if e == nil { b, e := c.recieve() ... }\<close> the \<^verbatim>\<open>:=\<close> declares
  a new \<^verbatim>\<open>e\<close>, so an error of the receive is not the error returned: the function
  returns the empty string and \<^verbatim>\<open>nil\<close> then.\<close>

definition getHTML :: "'db client \<Rightarrow> string \<Rightarrow> (string \<times> error option) \<times> 'db client" where
  "getHTML c selector =
     (let (bl, c1) = exists c selector in
      if bl then
        (let (e, c2) = WriteJSON c1 (getHTML_packet selector) in
         if e = None then
           (let ((b, e'), c3) = recieve c2 in
            if e' = None then ((b, e), c3) else (('''', e), c3))
         else (('''', e), c2))
      else (('''', Some (ErrorString ''element does not exist'')), c1))"

definition setAttribute_packet :: "string \<Rightarrow> string \<Rightarrow> string \<Rightarrow> packet" where
  "setAttribute_packet selector attribute val =
     setData (setData (setData (newPacket ''setAttribute'') ''Selector'' selector)
       ''Attribute'' attribute) ''Value'' val"

definition setAttribute :: "'db client \<Rightarrow> string \<Rightarrow> string \<Rightarrow> string \<Rightarrow> error option \<times> 'db client" where
  "setAttribute c selector attribute val = WriteJSON c (setAttribute_packet selector attribute val)"

definition getAttribute_packet :: "string \<Rightarrow> string \<Rightarrow> packet" where
  "getAttribute_packet selector attribute =
     setData (setData (newPacket ''getAttribute'') ''Selector'' selector) ''Attribute'' attribute"

text \<open>\<^verbatim>\<open>getAttribute\<close>, with the same inner \<^verbatim>\<open>b, e := c.recieve()\<close> as \<^verbatim>\<open>getHTML\<close>.\<close>

definition getAttribute :: "'db client \<Rightarrow> string \<Rightarrow> string \<Rightarrow> (string \<times> error option) \<times> 'db client" where
  "getAttribute c selector attribute =
     (let (e, c1) = WriteJSON c (getAttribute_packet selector attribute) in
      if e = None then
        (let ((b, e'), c2) = recieve c1 in
         if e' = None then ((b, e), c2) else (('''', e), c2))
      else (('''', e), c1))"

definition getProperty_packet :: "string \<Rightarrow> string \<Rightarrow> packet" where
  "getProperty_packet selector property =
     setData (setData (newPacket ''getProperty'') ''Selector'' selector) ''Property'' property"

definition getProperty :: "'db client \<Rightarrow> string \<Rightarrow> string \<Rightarrow> (string \<times> error option) \<times> 'db client" where
  "getProperty c selector property =
     (let (e, c1) = WriteJSON c (getProperty_packet selector property) in
      if e = None then
        (let ((b, e'), c2) = recieve c1 in
         if e' = None then ((b, e), c2) else (('''', e), c2))
      else (('''', e), c1))"

text \<open>\<^verbatim>\<open>prompt\<close>. Here \<^verbatim>\<open>b, e := c.recieve()\<close> stands in the function's own block,
  so it assigns the result \<^verbatim>\<open>e\<close>: the error of \<^verbatim>\<open>appendMsg\<close> is overwritten and the
  receive happens whether or not the message was written.\<close>

definition prompt :: "'db client \<Rightarrow> string \<Rightarrow> (string \<times> error option) \<times> 'db client" where
  "prompt c text =
     (let (e0, c1) = (if length text > 0 then appendMsg c ''#msg-list'' text
                      else appendMsg c ''#msg-list'' ''Enter some input:'');
          ((b, e), c2) = recieve c1
      in if e = None then ((b, e), c2) else (('''', e), c2))"

text \<open>\<^verbatim>\<open>promptSecure\<close>. The deferred \<^verbatim>\<open>c.setAttribute(selector, "type", attr)\<close> runs
  when the function returns, after the results are set; its own result is dropped.\<close>

definition promptSecure :: "'db client \<Rightarrow> string \<Rightarrow> string \<Rightarrow> (string \<times> error option) \<times> 'db client" where
  "promptSecure c selector text =
     (let ((attr, e), c1) = getAttribute c selector ''type'' in
      if e = None then
        (let (e1, c2) = setAttribute c1 selector ''type'' ''password'';
             ((s, e2), c3) = (if e1 = None then prompt c2 text else (('''', e1), c2));
             (e3, c4) = setAttribute c3 selector ''type'' attr
         in ((s, e2), c4))
      else (('''', e), c1))"

section \<open>The commands of cmd.go\<close>

text \<open>\<^verbatim>\<open>type command struct { Desc string; Handler func(*client, []string) error }\<close>.\<close>

record 'db command =
  Desc :: string
  Handler :: "'db client \<Rightarrow> string list \<Rightarrow> error option \<times> 'db client"

text \<open>The keys of \<^verbatim>\<open>cmdMap\<close> with their \<^verbatim>\<open>Desc\<close>, as \<^verbatim>\<open>init\<close> assigns them. The
  \<^verbatim>\<open>help\<close> handler reads \<^verbatim>\<open>cmdMap\<close>, of which it is an entry itself; it reads the
  keys and the descriptions only, which this table holds.\<close>

definition cmdDesc :: "string \<rightharpoonup> string" where
  "cmdDesc =
     [''help'' \<mapsto> ''help returns help information about available commands.'',
      ''clear'' \<mapsto> ''clear the current terminal's content'',
      ''login'' \<mapsto> ''login lets you log into a registered user account.'',
      ''register'' \<mapsto> ''register a user account'']"

definition help_Handler :: "'db env \<Rightarrow> 'db client \<Rightarrow> string list \<Rightarrow> error option \<times> 'db client" where
  "help_Handler env c args =
     (if length args > 0 then
        (if length args = 1 then
           (let cmds = foldl (\<lambda>cmds k. cmds @ '' '' @ k) [] (rangeKeys env)
            in appendMsg c ''#msg-list'' (''Available commands:'' @ cmds))
         else
           (case cmdDesc (args ! 1) of
              Some d \<Rightarrow> appendMsg c ''#msg-list'' d
            | None \<Rightarrow> appendMsg c ''#msg-list'' (''Command not available: '' @ args ! 1)))
      else (None, c))"

text \<open>\<^verbatim>\<open>clear\<close> drops the result of \<^verbatim>\<open>innerHTML\<close> and returns \<^verbatim>\<open>nil\<close>.\<close>

definition clear_Handler :: "'db client \<Rightarrow> string list \<Rightarrow> error option \<times> 'db client" where
  "clear_Handler c args =
     (if length args > 0 then
        (let (e0, c1) = innerHTML c ''#msg-list'' '' '' in (None, c1))
      else (None, c))"

text \<open>\<^verbatim>\<open>login\<close>. In the branch of an existing account,
  \<^verbatim>\<open>pass, e := c.promptSecure(...)\<close> declares a new \<^verbatim>\<open>e\<close> in that block; every later
  \<^verbatim>\<open>e = ...\<close> of the branch assigns that one, and the handler returns its result
  \<^verbatim>\<open>e\<close>, which is still \<^verbatim>\<open>nil\<close>.\<close>

definition login_Handler :: "'db env \<Rightarrow> 'db client \<Rightarrow> string list \<Rightarrow> error option \<times> 'db client" where
  "login_Handler env c args =
     (if length args > 0 then
        (if length args = 1 then appendMsg c ''#msg-list'' ''Usage: login <name>''
         else
           (let name = args ! 1 in
            if isName env name then
              (let path = users env @ SEP env @ indexPath env name in
               if pathExists env (db c) path then
                 (let ((pass, e), c1) = promptSecure c ''#msg-txt'' ''Please enter your password'' in
                  if e = None \<and> length pass > 0 then
                    (case load env (db c1) name pass of
                       Inl err \<Rightarrow>
                         (let (e', c2) = appendMsg c1 ''#msg-list'' ''Login failed'' in (None, c2))
                     | Inr u \<Rightarrow>
                         (let c2 = c1\<lparr>user := u\<rparr>;
                              (e', c3) = appendMsg c2 ''#msg-list'' (''Welcome back, '' @ Name (user c2))
                          in (None, c3)))
                  else (None, c1))
               else appendMsg c ''#msg-list'' ''User does not exist'')
            else appendMsg c ''#msg-list'' ''Invalid characters in name''))
      else (None, c))"

text \<open>\<^verbatim>\<open>register\<close>. \<^verbatim>\<open>email, e := c.prompt(...)\<close> declares a new \<^verbatim>\<open>e\<close> in the block
  of a valid name, so the handler returns \<^verbatim>\<open>nil\<close> from every path through that block.
  \<^verbatim>\<open>c.user.Email\<close> and \<^verbatim>\<open>c.user.Name\<close> are assigned before \<^verbatim>\<open>c.user.save\<close> is
  called.\<close>

definition register_Handler :: "'db env \<Rightarrow> 'db client \<Rightarrow> string list \<Rightarrow> error option \<times> 'db client" where
  "register_Handler env c args =
     (if length args > 1 then
        (let name = args ! 1 in
         if isName env name then
           (let ((email, e), c1) = prompt c ''Enter your email address'' in
            if e = None \<and> isEmail env email then
              (let ((pass1, e1), c2) = promptSecure c1 ''#msg-txt'' ''Enter a good password'' in
               if e1 = None then
                 (let ((pass2, e2), c3) = promptSecure c2 ''#msg-txt'' ''Re-enter your password'' in
                  if e2 = None \<and> pass1 = pass2 then
                    (let c4 = c3\<lparr>user := (user c3)\<lparr>Email := email\<rparr>\<rparr>;
                         c5 = c4\<lparr>user := (user c4)\<lparr>Name := name\<rparr>\<rparr>;
                         (es, d) = save env (db c5) (user c5) name pass1;
                         c6 = c5\<lparr>db := d\<rparr>
                     in (case es of
                           None \<Rightarrow>
                             (let (e', c7) = appendMsg c6 ''#msg-list''
                                    ''User account created (don't forget your password!)''
                              in (None, c7))
                         | Some err \<Rightarrow>
                             (let (e', c7) = appendMsg c6 ''#msg-list'' (Error err) in (None, c7))))
                  else
                    (let (e', c4) = appendMsg c3 ''#msg-list'' ''Failed! Passwords did not match''
                     in (None, c4)))
               else (None, c2))
            else
              (let (e', c2) = appendMsg c1 ''#msg-list'' ''Bad email address'' in (None, c2)))
         else appendMsg c ''#msg-list'' ''Invalid characters in name'')
      else appendMsg c ''#msg-list'' ''Usage: register <name>'')"

text \<open>\<^verbatim>\<open>var cmdMap = make(map[string]command)\<close>, as \<^verbatim>\<open>init\<close> fills it.\<close>

definition cmdMap :: "'db env \<Rightarrow> string \<rightharpoonup> 'db command" where
  "cmdMap env =
     [''help'' \<mapsto> \<lparr>Desc = ''help returns help information about available commands.'',
                   Handler = help_Handler env\<rparr>,
      ''clear'' \<mapsto> \<lparr>Desc = ''clear the current terminal's content'',
                    Handler = clear_Handler\<rparr>,
      ''login'' \<mapsto> \<lparr>Desc = ''login lets you log into a registered user account.'',
                    Handler = login_Handler env\<rparr>,
      ''register'' \<mapsto> \<lparr>Desc = ''register a user account'',
                       Handler = register_Handler env\<rparr>]"

section \<open>The read loop of main.go\<close>

text \<open>
  \<^verbatim>\<open>listener\<close>. \<^verbatim>\<open>if p, e := c.readPacket(); e == nil && len(p.Args) > 0\<close> declares
  \<^verbatim>\<open>p\<close> and \<^verbatim>\<open>e\<close> for the \<^verbatim>\<open>if\<close> statement: \<^verbatim>\<open>e = cmd.Handler(c, p)\<close> and
  \<^verbatim>\<open>e = c.appendMsg(...)\<close> assign that \<^verbatim>\<open>e\<close>, nothing reads it afterwards, and the loop
  goes round again. The result \<^verbatim>\<open>e\<close> of the function is never assigned, so the
  \<^verbatim>\<open>return\<close> after the \<^verbatim>\<open>break\<close> returns \<^verbatim>\<open>nil\<close>. The handler is given the packet's
  \<^verbatim>\<open>Args\<close> (main.go passes \<^verbatim>\<open>p\<close>, cmd.go declares the parameter as \<^verbatim>\<open>[]string\<close>).
  \<^verbatim>\<open>time.Sleep\<close> has no effect on the state.
\<close>

function listener :: "'db env \<Rightarrow> 'db client \<Rightarrow> error option \<times> 'db client" where
  "listener env c =
     (case readPacket env c of
        ((p, e), c1) \<Rightarrow>
          if e = None \<and> length (Args p) > 0 then
            (case cmdMap env (Args p ! 0) of
               Some cmd \<Rightarrow>
                 (case Handler cmd c1 (Args p) of (e', c2) \<Rightarrow> listener env c2)
             | None \<Rightarrow>
                 (case appendMsg c1 ''#msgList'' (Args p ! 0 @ '': command not found '') of
                    (e', c2) \<Rightarrow> listener env c2))
          else (None, c1))"
  by pat_completeness auto

section \<open>A sample environment and session\<close>

text \<open>A decoder that knows a handful of frames, a user store that is the list of the
  registered names, and a client at the start of its session with one account,
  \<open>alice\<close>, in the store. \<open>texts\<close> shows the type and the text of what was written.\<close>

definition decode_ex :: "string \<Rightarrow> packet_main option" where
  "decode_ex m =
     (if m = ''help'' then
        Some \<lparr>Type_main = [], Args = [''help''], Map_main = Map.empty\<rparr>
      else if m = ''frobnicate'' then
        Some \<lparr>Type_main = [], Args = [''frobnicate''], Map_main = Map.empty\<rparr>
      else if m = ''login alice'' then
        Some \<lparr>Type_main = [], Args = [''login'', ''alice''], Map_main = Map.empty\<rparr>
      else if m = ''login carol'' then
        Some \<lparr>Type_main = [], Args = [''login'', ''carol''], Map_main = Map.empty\<rparr>
      else if m = ''register alice'' then
        Some \<lparr>Type_main = [], Args = [''register'', ''alice''], Map_main = Map.empty\<rparr>
      else if m = ''{}'' then
        Some \<lparr>Type_main = [], Args = [], Map_main = Map.empty\<rparr>
      else None)"

definition env_ex :: "string list env" where
  "env_ex =
     \<lparr>decode = decode_ex,
      isName = (\<lambda>n. n \<noteq> []),
      isEmail = (\<lambda>a. CHR ''@'' \<in> set a),
      users = ''users'',
      SEP = ''/'',
      indexPath = (\<lambda>n. n),
      pathExists = (\<lambda>d p. p \<in> set (map (\<lambda>n. ''users/'' @ n) d)),
      load = (\<lambda>d n pw. if pw = ''secret'' then Inr \<lparr>Name = n, Email = n @ ''@example.org''\<rparr>
                        else Inl (ErrorString ''invalid credentials'')),
      save = (\<lambda>d u n pw. if n \<in> set d then (Some (ErrorString ''already exists''), d)
                          else (None, n # d)),
      rangeKeys = [''help'', ''clear'', ''login'', ''register'']\<rparr>"

definition client_ex :: "string list \<Rightarrow> (nat \<Rightarrow> error option) \<Rightarrow> string list client" where
  "client_ex ms w =
     \<lparr>inbox = ms, wlog = [], wres = w, user = \<lparr>Name = [], Email = []\<rparr>,
      address = ''127.0.0.1:4000'', db = [''alice'']\<rparr>"

definition texts :: "'db client \<Rightarrow> (string \<times> string option) list" where
  "texts c = map (\<lambda>p. (Type p, Data p ''Text'')) (wlog c)"

section \<open>The inbox only shrinks: the read loop terminates\<close>

text \<open>No directive and no handler puts a frame back: what is left of the inbox is a
  suffix of what was there, and each successful \<^verbatim>\<open>readPacket\<close> takes one frame, so the
  loop ends when the peer's frames are used up.\<close>

lemma inbox_WriteJSON [simp]: "inbox (snd (WriteJSON c p)) = inbox c"
  by (simp add: WriteJSON_def)

lemma inbox_appendMsg [simp]: "inbox (snd (appendMsg c sel t)) = inbox c"
  by (simp add: appendMsg_def)

lemma inbox_innerHTML [simp]: "inbox (snd (innerHTML c sel t)) = inbox c"
  by (simp add: innerHTML_def)

lemma inbox_setAttribute [simp]: "inbox (snd (setAttribute c sel a t)) = inbox c"
  by (simp add: setAttribute_def)

lemma inbox_recieve: "suffix (inbox (snd (recieve c))) (inbox c)"
  by (simp add: recieve_def suffix_ConsI split: list.splits)

lemma inbox_exists: "suffix (inbox (snd (exists c sel))) (inbox c)"
  using inbox_recieve [of "snd (WriteJSON c (exists_packet sel))"]
  by (simp add: exists_def Let_def split_def)

lemma inbox_getAttribute: "suffix (inbox (snd (getAttribute c sel a))) (inbox c)"
  using inbox_recieve [of "snd (WriteJSON c (getAttribute_packet sel a))"]
  by (simp add: getAttribute_def Let_def split_def)

lemma inbox_getProperty: "suffix (inbox (snd (getProperty c sel a))) (inbox c)"
  using inbox_recieve [of "snd (WriteJSON c (getProperty_packet sel a))"]
  by (simp add: getProperty_def Let_def split_def)

lemma inbox_prompt: "suffix (inbox (snd (prompt c t))) (inbox c)"
  using inbox_recieve [of "snd (appendMsg c ''#msg-list'' t)"]
    inbox_recieve [of "snd (appendMsg c ''#msg-list'' ''Enter some input:'')"]
  by (simp add: prompt_def Let_def split_def)

lemma inbox_promptSecure: "suffix (inbox (snd (promptSecure c sel t))) (inbox c)"
proof -
  let ?c1 = "snd (getAttribute c sel ''type'')"
  let ?c2 = "snd (setAttribute ?c1 sel ''type'' ''password'')"
  have a: "suffix (inbox ?c1) (inbox c)"
    by (rule inbox_getAttribute)
  have "suffix (inbox (snd (prompt ?c2 t))) (inbox ?c1)"
    using inbox_prompt [of ?c2 t] by simp
  then have b: "suffix (inbox (snd (prompt ?c2 t))) (inbox c)"
    using a by (rule suffix_order.trans)
  show ?thesis
    using a b by (simp add: promptSecure_def Let_def split_def)
qed

lemma inbox_help: "inbox (snd (help_Handler env c args)) = inbox c"
  by (simp add: help_Handler_def Let_def split: option.splits)

lemma inbox_clear: "inbox (snd (clear_Handler c args)) = inbox c"
  by (simp add: clear_Handler_def Let_def split_def)

lemma inbox_login: "suffix (inbox (snd (login_Handler env c args))) (inbox c)"
  using inbox_promptSecure [of c "''#msg-txt''" "''Please enter your password''"]
  by (simp add: login_Handler_def Let_def split_def split: sum.splits)

lemma inbox_register: "suffix (inbox (snd (register_Handler env c args))) (inbox c)"
proof -
  let ?c1 = "snd (prompt c ''Enter your email address'')"
  let ?c2 = "snd (promptSecure ?c1 ''#msg-txt'' ''Enter a good password'')"
  let ?c3 = "snd (promptSecure ?c2 ''#msg-txt'' ''Re-enter your password'')"
  have a: "suffix (inbox ?c1) (inbox c)"
    by (rule inbox_prompt)
  have "suffix (inbox ?c2) (inbox ?c1)"
    by (rule inbox_promptSecure)
  then have b: "suffix (inbox ?c2) (inbox c)"
    using a by (rule suffix_order.trans)
  have "suffix (inbox ?c3) (inbox ?c2)"
    by (rule inbox_promptSecure)
  then have d: "suffix (inbox ?c3) (inbox c)"
    using b by (rule suffix_order.trans)
  show ?thesis
    using a b d by (simp add: register_Handler_def Let_def split_def split: option.splits)
qed

lemma inbox_cmdMap:
  "cmdMap env k = Some cmd \<Longrightarrow> suffix (inbox (snd (Handler cmd c args))) (inbox c)"
  by (auto simp: cmdMap_def inbox_help inbox_clear inbox_login inbox_register split: if_splits)

lemma inbox_readPacket:
  "((p, e), c1) = readPacket env c \<Longrightarrow> e = None \<Longrightarrow> length (inbox c1) < length (inbox c)"
  by (auto simp: readPacket_def split: list.splits option.splits)

termination listener
proof (relation "measure (\<lambda>(env, c). length (inbox c))")
  show "wf (measure (\<lambda>(env :: 'db env, c :: 'db client). length (inbox c)))"
    by simp
next
  fix env :: "'db env" and c x y xa ya xb yaa
  assume r: "(x, y) = readPacket env c" "(xa, ya) = x" "ya = None \<and> 0 < length (Args xa)"
    and w: "(xb, yaa) = appendMsg y ''#msgList'' (Args xa ! 0 @ '': command not found '')"
  have "length (inbox y) < length (inbox c)"
    using r inbox_readPacket [of xa ya y env c] by simp
  moreover have "inbox yaa = inbox y"
    using w inbox_appendMsg [of y "''#msgList''" "Args xa ! 0 @ '': command not found ''"]
    by (metis snd_conv)
  ultimately show "((env, yaa), env, c) \<in> measure (\<lambda>(env, c). length (inbox c))"
    by simp
next
  fix env :: "'db env" and c x y xa ya x2 xb yaa
  assume r: "(x, y) = readPacket env c" "(xa, ya) = x" "ya = None \<and> 0 < length (Args xa)"
    and m: "cmdMap env (Args xa ! 0) = Some x2"
    and h: "(xb, yaa) = Handler x2 y (Args xa)"
  have "length (inbox y) < length (inbox c)"
    using r inbox_readPacket [of xa ya y env c] by simp
  moreover have "length (inbox yaa) \<le> length (inbox y)"
    using inbox_cmdMap [OF m, of y "Args xa"] h suffix_length_le by (metis snd_conv)
  ultimately show "((env, yaa), env, c) \<in> measure (\<lambda>(env, c). length (inbox c))"
    by simp
qed

declare listener.simps [simp del]

section \<open>Unfolding the definitions\<close>

lemmas ex_defs = env_ex_def client_ex_def decode_ex_def texts_def

lemmas op_defs = readPacket_def cmdMap_def help_Handler_def clear_Handler_def
  login_Handler_def register_Handler_def promptSecure_def getAttribute_def setAttribute_def
  prompt_def appendMsg_def innerHTML_def WriteJSON_def recieve_def Let_def

lemmas pk_defs = appendMsg_packet_def setAttribute_packet_def getAttribute_packet_def
  innerHTML_packet_def setData_def newPacket_def

lemma readPacket_Cons:
  "inbox c = f # rest \<Longrightarrow> decode env f = Some p \<Longrightarrow>
   readPacket env c = ((p, None), c\<lparr>inbox := rest\<rparr>)"
  by (simp add: readPacket_def)

text \<open>One round of the loop on a frame that names a registered command: the handler
  runs on the rest of the inbox, and the loop goes on from the state it leaves,
  whatever it returns.\<close>

lemma listener_dispatch:
  assumes "inbox c = f # rest" and "decode env f = Some p" and "Args p = a # as"
    and "cmdMap env a = Some cmd"
  shows "listener env c = listener env (snd (Handler cmd (c\<lparr>inbox := rest\<rparr>) (Args p)))"
  using assms
  by (subst listener.simps) (simp add: readPacket_Cons split_def)

section \<open>The read loop on a packet without arguments\<close>

text \<open>
  C9: when the next inbound frame decodes to a packet whose \<^verbatim>\<open>Args\<close> is empty, the
  read loop ends there: \<^verbatim>\<open>listener\<close> returns with that one frame taken from the inbox
  and nothing else changed, so no handler ran and nothing was written to the client,
  and the frames behind it are never read.
\<close>

theorem empty_args_end_session:
  assumes "inbox c = f # rest" and "decode env f = Some p" and "Args p = []"
  shows "listener env c = (None, c\<lparr>inbox := rest\<rparr>)"
  using assms by (subst listener.simps) (simp add: readPacket_Cons)

theorem empty_args_end_session_witness:
  "inbox (client_ex [''{}'', ''help''] (\<lambda>n. None)) = [''{}'', ''help'']
   \<and> decode env_ex ''{}'' = Some \<lparr>Type_main = [], Args = [], Map_main = Map.empty\<rparr>
   \<and> listener env_ex (client_ex [''{}'', ''help''] (\<lambda>n. None)) =
       (None, client_ex [''help''] (\<lambda>n. None))"
  using empty_args_end_session [of "client_ex [''{}'', ''help''] (\<lambda>n. None)" "''{}''"
      "[''help'']" env_ex "\<lparr>Type_main = [], Args = [], Map_main = Map.empty\<rparr>"]
  by (simp add: ex_defs)

section \<open>Unknown commands\<close>

text \<open>
  C2: when the next inbound frame decodes to a packet whose first argument is not a
  key of \<^verbatim>\<open>cmdMap\<close>, the loop hands the message \<^verbatim>\<open>"<name>: command not found "\<close> for
  \<^verbatim>\<open>#msgList\<close> to the connection and goes on with the rest of the inbox: the session
  stays alive and the following frames are processed.
\<close>

theorem unknown_command_continues:
  assumes "inbox c = f # rest" and "decode env f = Some p" and "Args p = a # as"
    and "cmdMap env a = None"
  shows "listener env c =
         listener env (c\<lparr>inbox := rest,
           wlog := wlog c @ [appendMsg_packet ''#msgList'' (a @ '': command not found '')]\<rparr>)"
  using assms
  by (subst listener.simps) (simp add: readPacket_Cons appendMsg_def WriteJSON_def)

text \<open>An unknown command followed by \<^verbatim>\<open>help\<close>: both are answered.\<close>

theorem unknown_command_continues_witness:
  "decode env_ex ''frobnicate'' =
     Some \<lparr>Type_main = [], Args = [''frobnicate''], Map_main = Map.empty\<rparr>
   \<and> cmdMap env_ex ''frobnicate'' = None
   \<and> listener env_ex (client_ex [''frobnicate'', ''help''] (\<lambda>n. None)) =
     listener env_ex ((client_ex [''help''] (\<lambda>n. None))
       \<lparr>wlog := [appendMsg_packet ''#msgList'' ''frobnicate: command not found '']\<rparr>)
   \<and> texts (snd (listener env_ex (client_ex [''frobnicate'', ''help''] (\<lambda>n. None)))) =
     [(''appendElement'', Some ''frobnicate: command not found ''),
      (''appendElement'', Some ''Available commands: help clear login register'')]"
proof -
  have d: "decode env_ex ''frobnicate'' =
     Some \<lparr>Type_main = [], Args = [''frobnicate''], Map_main = Map.empty\<rparr>"
    by (simp add: ex_defs)
  have m: "cmdMap env_ex ''frobnicate'' = None"
    by (simp add: cmdMap_def)
  have l: "listener env_ex (client_ex [''frobnicate'', ''help''] (\<lambda>n. None)) =
     listener env_ex ((client_ex [''help''] (\<lambda>n. None))
       \<lparr>wlog := [appendMsg_packet ''#msgList'' ''frobnicate: command not found '']\<rparr>)"
    using unknown_command_continues [of "client_ex [''frobnicate'', ''help''] (\<lambda>n. None)"
        "''frobnicate''" "[''help'']" env_ex
        "\<lparr>Type_main = [], Args = [''frobnicate''], Map_main = Map.empty\<rparr>" "''frobnicate''" "[]"]
      d m
    by (simp add: client_ex_def)
  have "texts (snd (listener env_ex ((client_ex [''help''] (\<lambda>n. None))
       \<lparr>wlog := [appendMsg_packet ''#msgList'' ''frobnicate: command not found '']\<rparr>))) =
     [(''appendElement'', Some ''frobnicate: command not found ''),
      (''appendElement'', Some ''Available commands: help clear login register'')]"
    by (simp add: listener.simps ex_defs op_defs pk_defs)
  with d m l show ?thesis
    by simp
qed

section \<open>A handler that returns an error\<close>




section \<open>Queries and their answers\<close>

lemma exists_reply:
  "inbox c = m # ms \<Longrightarrow> wres c (length (wlog c)) = None \<Longrightarrow>
   exists c sel = (m = ''true'', c\<lparr>inbox := ms, wlog := wlog c @ [exists_packet sel]\<rparr>)"
  by (simp add: exists_def WriteJSON_def recieve_def)

lemma getAttribute_reply:
  "inbox c = m # ms \<Longrightarrow> wres c (length (wlog c)) = None \<Longrightarrow>
   getAttribute c sel a = ((m, None), c\<lparr>inbox := ms, wlog := wlog c @ [getAttribute_packet sel a]\<rparr>)"
  by (simp add: getAttribute_def WriteJSON_def recieve_def)

lemma getProperty_reply:
  "inbox c = m # ms \<Longrightarrow> wres c (length (wlog c)) = None \<Longrightarrow>
   getProperty c sel a = ((m, None), c\<lparr>inbox := ms, wlog := wlog c @ [getProperty_packet sel a]\<rparr>)"
  by (simp add: getProperty_def WriteJSON_def recieve_def)

lemma prompt_reply:
  "inbox c = m # ms \<Longrightarrow>
   prompt c t = ((m, None), c\<lparr>inbox := ms,
     wlog := wlog c @ [appendMsg_packet ''#msg-list'' (if length t > 0 then t else ''Enter some input:'')]\<rparr>)"
  by (simp add: prompt_def appendMsg_def WriteJSON_def recieve_def)

lemma getHTML_reply:
  "inbox c = ''true'' # m # ms \<Longrightarrow> wres c (length (wlog c)) = None \<Longrightarrow>
   wres c (Suc (length (wlog c))) = None \<Longrightarrow>
   getHTML c sel = ((m, None), c\<lparr>inbox := ms, wlog := wlog c @ [exists_packet sel, getHTML_packet sel]\<rparr>)"
  by (simp add: getHTML_def exists_reply WriteJSON_def recieve_def)

text \<open>
  C1: a query takes the very next inbound frame as its answer, and the read loop never
  sees that frame. For \<^verbatim>\<open>exists\<close>, \<^verbatim>\<open>getAttribute\<close> and \<^verbatim>\<open>getProperty\<close>, once the
  directive is written, and for \<^verbatim>\<open>prompt\<close> in every case, the head of the inbox is the
  answer and the inbox is left at its tail; \<^verbatim>\<open>getHTML\<close> does the same with the frame
  behind the \<^verbatim>\<open>true\<close> that answered its \<^verbatim>\<open>exists\<close>. The loop runs the handler of a
  command on the frames behind the command and reads on from what the handler left of
  them, whatever the frames it took would decode to.
\<close>

theorem query_reply_not_dispatched:
  "(inbox c = m # ms \<and> wres c (length (wlog c)) = None \<longrightarrow>
      exists c sel = (m = ''true'', c\<lparr>inbox := ms, wlog := wlog c @ [exists_packet sel]\<rparr>)
      \<and> getAttribute c sel a =
          ((m, None), c\<lparr>inbox := ms, wlog := wlog c @ [getAttribute_packet sel a]\<rparr>)
      \<and> getProperty c sel a =
          ((m, None), c\<lparr>inbox := ms, wlog := wlog c @ [getProperty_packet sel a]\<rparr>))
   \<and> (inbox c = m # ms \<longrightarrow>
      prompt c t = ((m, None), c\<lparr>inbox := ms,
        wlog := wlog c @ [appendMsg_packet ''#msg-list''
                           (if length t > 0 then t else ''Enter some input:'')]\<rparr>))
   \<and> (inbox h = ''true'' # r # rs \<and> wres h (length (wlog h)) = None
        \<and> wres h (Suc (length (wlog h))) = None \<longrightarrow>
      getHTML h sel = ((r, None),
        h\<lparr>inbox := rs, wlog := wlog h @ [exists_packet sel, getHTML_packet sel]\<rparr>))
   \<and> (inbox l = f # rest \<and> decode env f = Some p \<and> Args p = n # as
        \<and> cmdMap env n = Some cmd \<longrightarrow>
      suffix (inbox (snd (Handler cmd (l\<lparr>inbox := rest\<rparr>) (Args p)))) rest
      \<and> listener env l = listener env (snd (Handler cmd (l\<lparr>inbox := rest\<rparr>) (Args p))))"
proof (intro conjI impI)
  assume "inbox c = m # ms \<and> wres c (length (wlog c)) = None"
  then show "exists c sel = (m = ''true'', c\<lparr>inbox := ms, wlog := wlog c @ [exists_packet sel]\<rparr>)"
    and "getAttribute c sel a =
          ((m, None), c\<lparr>inbox := ms, wlog := wlog c @ [getAttribute_packet sel a]\<rparr>)"
    and "getProperty c sel a =
          ((m, None), c\<lparr>inbox := ms, wlog := wlog c @ [getProperty_packet sel a]\<rparr>)"
    by (simp_all add: exists_reply getAttribute_reply getProperty_reply)
next
  assume "inbox c = m # ms"
  then show "prompt c t = ((m, None), c\<lparr>inbox := ms,
        wlog := wlog c @ [appendMsg_packet ''#msg-list''
                           (if length t > 0 then t else ''Enter some input:'')]\<rparr>)"
    by (rule prompt_reply)
next
  assume "inbox h = ''true'' # r # rs \<and> wres h (length (wlog h)) = None
        \<and> wres h (Suc (length (wlog h))) = None"
  then show "getHTML h sel = ((r, None),
        h\<lparr>inbox := rs, wlog := wlog h @ [exists_packet sel, getHTML_packet sel]\<rparr>)"
    by (simp add: getHTML_reply)
next
  assume h: "inbox l = f # rest \<and> decode env f = Some p \<and> Args p = n # as
        \<and> cmdMap env n = Some cmd"
  show "suffix (inbox (snd (Handler cmd (l\<lparr>inbox := rest\<rparr>) (Args p)))) rest"
    using h inbox_cmdMap [of env n cmd "l\<lparr>inbox := rest\<rparr>" "Args p"] by simp
  show "listener env l = listener env (snd (Handler cmd (l\<lparr>inbox := rest\<rparr>) (Args p)))"
    using h listener_dispatch [of l f rest env p n as cmd] by simp
qed


text \<open>The frame \<^verbatim>\<open>help\<close>, which decodes to the command \<^verbatim>\<open>help\<close>, as the answer to each
  query; and as the password of a login, where the loop goes on with the frame behind
  it and no list of commands is written.\<close>

theorem query_reply_not_dispatched_witness:
  "exists (client_ex [''help'', ''clear''] (\<lambda>n. None)) ''#msg-txt'' =
     (False, (client_ex [''clear''] (\<lambda>n. None))\<lparr>wlog := [exists_packet ''#msg-txt'']\<rparr>)
   \<and> getAttribute (client_ex [''help'', ''clear''] (\<lambda>n. None)) ''#msg-txt'' ''type'' =
     ((''help'', None),
      (client_ex [''clear''] (\<lambda>n. None))\<lparr>wlog := [getAttribute_packet ''#msg-txt'' ''type'']\<rparr>)
   \<and> getProperty (client_ex [''help'', ''clear''] (\<lambda>n. None)) ''#msg-txt'' ''type'' =
     ((''help'', None),
      (client_ex [''clear''] (\<lambda>n. None))\<lparr>wlog := [getProperty_packet ''#msg-txt'' ''type'']\<rparr>)
   \<and> prompt (client_ex [''help'', ''clear''] (\<lambda>n. None)) ''Name?'' =
     ((''help'', None),
      (client_ex [''clear''] (\<lambda>n. None))\<lparr>wlog := [appendMsg_packet ''#msg-list'' ''Name?'']\<rparr>)
   \<and> getHTML (client_ex [''true'', ''help'', ''clear''] (\<lambda>n. None)) ''#msg-txt'' =
     ((''help'', None),
      (client_ex [''clear''] (\<lambda>n. None))
        \<lparr>wlog := [exists_packet ''#msg-txt'', getHTML_packet ''#msg-txt'']\<rparr>)
   \<and> inbox (snd (login_Handler env_ex
         (client_ex [''text'', ''help'', ''frobnicate''] (\<lambda>n. None)) [''login'', ''alice''])) =
       [''frobnicate'']
   \<and> listener env_ex (client_ex [''login alice'', ''text'', ''help'', ''frobnicate''] (\<lambda>n. None)) =
     listener env_ex (snd (login_Handler env_ex
         (client_ex [''text'', ''help'', ''frobnicate''] (\<lambda>n. None)) [''login'', ''alice'']))
   \<and> texts (snd (listener env_ex
         (client_ex [''login alice'', ''text'', ''help'', ''frobnicate''] (\<lambda>n. None)))) =
       [(''getAttribute'', None), (''setAttribute'', None),
        (''appendElement'', Some ''Please enter your password''), (''setAttribute'', None),
        (''appendElement'', Some ''Login failed''),
        (''appendElement'', Some ''frobnicate: command not found '')]"
proof -
  let ?ok = "\<lambda>n::nat. None :: error option"
  have q: "exists (client_ex [''help'', ''clear''] ?ok) ''#msg-txt'' =
     (False, (client_ex [''clear''] ?ok)\<lparr>wlog := [exists_packet ''#msg-txt'']\<rparr>)
   \<and> getAttribute (client_ex [''help'', ''clear''] ?ok) ''#msg-txt'' ''type'' =
     ((''help'', None),
      (client_ex [''clear''] ?ok)\<lparr>wlog := [getAttribute_packet ''#msg-txt'' ''type'']\<rparr>)
   \<and> getProperty (client_ex [''help'', ''clear''] ?ok) ''#msg-txt'' ''type'' =
     ((''help'', None),
      (client_ex [''clear''] ?ok)\<lparr>wlog := [getProperty_packet ''#msg-txt'' ''type'']\<rparr>)
   \<and> prompt (client_ex [''help'', ''clear''] ?ok) ''Name?'' =
     ((''help'', None),
      (client_ex [''clear''] ?ok)\<lparr>wlog := [appendMsg_packet ''#msg-list'' ''Name?'']\<rparr>)
   \<and> getHTML (client_ex [''true'', ''help'', ''clear''] ?ok) ''#msg-txt'' =
     ((''help'', None),
      (client_ex [''clear''] ?ok)
        \<lparr>wlog := [exists_packet ''#msg-txt'', getHTML_packet ''#msg-txt'']\<rparr>)
   \<and> listener env_ex (client_ex [''login alice'', ''text'', ''help'', ''frobnicate''] ?ok) =
     listener env_ex (snd (login_Handler env_ex
         (client_ex [''text'', ''help'', ''frobnicate''] ?ok) [''login'', ''alice'']))"
    using query_reply_not_dispatched [where c = "client_ex [''help'', ''clear''] ?ok"
        and m = "''help''" and ms = "[''clear'']" and sel = "''#msg-txt''" and a = "''type''"
        and t = "''Name?''" and h = "client_ex [''true'', ''help'', ''clear''] ?ok"
        and r = "''help''" and rs = "[''clear'']"
        and l = "client_ex [''login alice'', ''text'', ''help'', ''frobnicate''] ?ok"
        and f = "''login alice''" and rest = "[''text'', ''help'', ''frobnicate'']"
        and env = env_ex
        and p = "\<lparr>Type_main = [], Args = [''login'', ''alice''], Map_main = Map.empty\<rparr>"
        and n = "''login''" and as = "[''alice'']"
        and cmd = "\<lparr>Desc = ''login lets you log into a registered user account.'',
                     Handler = login_Handler env_ex\<rparr>"]
    by (simp add: ex_defs cmdMap_def)
  have i: "inbox (snd (login_Handler env_ex
         (client_ex [''text'', ''help'', ''frobnicate''] ?ok) [''login'', ''alice''])) =
       [''frobnicate'']"
    by (simp add: ex_defs op_defs)
  have t: "texts (snd (listener env_ex
         (client_ex [''login alice'', ''text'', ''help'', ''frobnicate''] ?ok))) =
       [(''getAttribute'', None), (''setAttribute'', None),
        (''appendElement'', Some ''Please enter your password''), (''setAttribute'', None),
        (''appendElement'', Some ''Login failed''),
        (''appendElement'', Some ''frobnicate: command not found '')]"
    by (simp add: listener.simps ex_defs op_defs pk_defs)
  from q i t show ?thesis
    by simp
qed

section \<open>\<^verbatim>\<open>getHTML\<close> asks first whether the element exists\<close>



section \<open>\<^verbatim>\<open>promptSecure\<close> puts the attribute back\<close>



section \<open>The handlers \<^verbatim>\<open>login\<close> and \<^verbatim>\<open>register\<close>\<close>













end
